theory Spec2Isabelle
  imports Main
begin

section \<open>The outside world of \<open>clean_history.py\<close>\<close>

text \<open>
  The script talks to its surroundings in three ways: it asks whether a path exists
  (\<open>os.path.exists\<close>), it runs shell commands (\<open>subprocess.run\<close>) and it prints lines.
  The first two are answered by an environment; the calls of the last two are recorded,
  in program order, in a trace that every function takes and returns. \<open>print\<close> is
  taken to write its line and return.
\<close>

text \<open>
  What a \<open>try\<close> block can see raised. \<open>Exception_subclass msg\<close> is any instance of
  Python's \<open>Exception\<close>, with \<open>msg\<close> its \<open>str(e)\<close>. \<open>KeyboardInterrupt\<close> derives from
  \<open>BaseException\<close> only, so \<open>except Exception\<close> does not catch it.
\<close>

datatype py_exception = Exception_subclass string | KeyboardInterrupt

text \<open>
  The outcome of \<open>subprocess.run(cmd, shell=True, capture_output=True, text=True)\<close>:
  a completed process with \<open>returncode\<close>, \<open>stdout\<close> and \<open>stderr\<close>, or an exception.
\<close>

datatype proc_outcome = CompletedProcess int string string | Raised py_exception

datatype event = Print string | Run string proc_outcome

text \<open>
  \<open>subprocess_run\<close> gets the commands run so far, oldest first, and the command: the
  same command may end differently at different moments of a run.
\<close>

record env =
  path_exists :: "string \<Rightarrow> bool"
  subprocess_run :: "string list \<Rightarrow> string \<Rightarrow> proc_outcome"

fun launched :: "event list \<Rightarrow> string list" where
  "launched [] = []"
| "launched (Print s # t) = launched t"
| "launched (Run cmd out # t) = cmd # launched t"

text \<open>How a process ends: \<open>sys.exit(n)\<close> or the end of the script (status 0), or an
  exception that nothing caught.\<close>

datatype process_end = Exit int | Uncaught py_exception

section \<open>The script\<close>

text \<open>Strings are the bytes of the source file, which is UTF-8.\<close>

definition check_mark :: string where
  "check_mark = [CHR 0xE2, CHR 0x9C, CHR 0x93]"

definition warning_sign :: string where
  "warning_sign = [CHR 0xE2, CHR 0x9A, CHR 0xA0]"

definition ballot_x :: string where
  "ballot_x = [CHR 0xE2, CHR 0x9C, CHR 0x97]"

definition party_popper :: string where
  "party_popper = [CHR 0xF0, CHR 0x9F, CHR 0x8E, CHR 0x89]"

definition cross_mark :: string where
  "cross_mark = [CHR 0xE2, CHR 0x9D, CHR 0x8C]"

text \<open>\<open>sep.join(xs)\<close>\<close>

fun join :: "string \<Rightarrow> string list \<Rightarrow> string" where
  "join sep [] = []"
| "join sep [x] = x"
| "join sep (x # y # ys) = x @ sep @ join sep (y # ys)"

text \<open>
  \<open>run_command\<close>, lines 6 to 12. The \<open>except Exception\<close> clause turns an instance of
  \<open>Exception\<close> into \<open>(False, "", str(e))\<close>; any other exception leaves the function.
\<close>

definition run_command ::
  "env \<Rightarrow> string \<Rightarrow> event list \<Rightarrow> (py_exception + bool \<times> string \<times> string) \<times> event list" where
  "run_command e cmd t =
     (let result = subprocess_run e (launched t) cmd;
          t' = t @ [Run cmd result]
      in case result of
           CompletedProcess returncode out err \<Rightarrow> (Inr (returncode = 0, out, err), t')
         | Raised (Exception_subclass msg) \<Rightarrow> (Inr (False, [], msg), t')
         | Raised KeyboardInterrupt \<Rightarrow> (Inl KeyboardInterrupt, t'))"

text \<open>\<open>clean_git_history\<close>, lines 14 to 54.\<close>

definition clean_git_history :: "env \<Rightarrow> event list \<Rightarrow> (py_exception + bool) \<times> event list" where
  "clean_git_history e t0 =
     (let t1 = t0 @ [Print ''Cleaning git history to remove secrets...'']
      in case run_command e ''git branch backup-before-cleanup'' t1 of
           (Inl x, t2) \<Rightarrow> (Inl x, t2)
         | (Inr (success, out, err), t2) \<Rightarrow>
             (let t3 = (if success
                        then t2 @ [Print (check_mark @ '' Created backup branch: backup-before-cleanup'')]
                        else t2 @ [Print (warning_sign @ '' Warning: Could not create backup branch'')]);
                  filter_cmd = [''git-filter-repo'', ''--path backend/.env'', ''--invert-paths'', ''--force''];
                  t4 = t3 @ [Print ''Running git-filter-repo to remove .env files from history...'']
              in case run_command e (join '' '' filter_cmd) t4 of
                   (Inl x, t5) \<Rightarrow> (Inl x, t5)
                 | (Inr (success, out, err), t5) \<Rightarrow>
                     if success then
                       (let t6 = t5 @ [Print (check_mark @ '' Successfully cleaned git history''),
                                       Print ''Force pushing to remote...'']
                        in case run_command e ''git push origin main --force'' t6 of
                             (Inl x, t7) \<Rightarrow> (Inl x, t7)
                           | (Inr (push_success, push_stdout, push_stderr), t7) \<Rightarrow>
                               if push_success
                               then (Inr True,
                                     t7 @ [Print (check_mark @ '' Successfully pushed cleaned history to remote'')])
                               else (Inr False,
                                     t7 @ [Print (ballot_x @ '' Failed to push to remote:''),
                                           Print push_stderr]))
                     else (Inr False,
                           t5 @ [Print (ballot_x @ '' Failed to clean git history:''), Print err])))"

text \<open>The \<open>__main__\<close> block, lines 56 to 75, from an empty trace.\<close>

definition main :: "env \<Rightarrow> process_end \<times> event list" where
  "main e =
     (if \<not> path_exists e ''.git''
      then (Exit 1, [Print ''Error: Not in a git repository''])
      else case run_command e ''which git-filter-repo'' [] of
             (Inl x, t1) \<Rightarrow> (Uncaught x, t1)
           | (Inr (success, out, err), t1) \<Rightarrow>
               if \<not> success
               then (Exit 1,
                     t1 @ [Print ''Error: git-filter-repo not found. Please install it first.'',
                           Print ''You can install it with: pip3 install git-filter-repo''])
               else (case clean_git_history e t1 of
                       (Inl x, t2) \<Rightarrow> (Uncaught x, t2)
                     | (Inr ok, t2) \<Rightarrow>
                         if ok
                         then (Exit 0,
                               t2 @ [Print (CHR 0x0A # party_popper @ '' Git history cleaned successfully!''),
                                     Print ''If you need to restore, use: git checkout backup-before-cleanup''])
                         else (Exit 1,
                               t2 @ [Print (CHR 0x0A # cross_mark @ '' Failed to clean git history'')])))"

section \<open>Reading a trace\<close>

text \<open>What \<open>run_command\<close> reports for an outcome: success, failure, or nothing at all
  when the exception passes through it.\<close>

definition succeeded :: "proc_outcome \<Rightarrow> bool" where
  "succeeded out = (case out of CompletedProcess rc so se \<Rightarrow> rc = 0 | Raised x \<Rightarrow> False)"

definition failed :: "proc_outcome \<Rightarrow> bool" where
  "failed out =
     (case out of
        CompletedProcess rc so se \<Rightarrow> rc \<noteq> 0
      | Raised (Exception_subclass msg) \<Rightarrow> True
      | Raised KeyboardInterrupt \<Rightarrow> False)"

text \<open>The diagnostic text \<open>run_command\<close> returns as its third component.\<close>

definition diagnostic :: "proc_outcome \<Rightarrow> string" where
  "diagnostic out =
     (case out of
        CompletedProcess rc so se \<Rightarrow> se
      | Raised (Exception_subclass msg) \<Rightarrow> msg
      | Raised KeyboardInterrupt \<Rightarrow> [])"

text \<open>The captured standard output \<open>run_command\<close> returns as its second component.\<close>

definition captured_stdout :: "proc_outcome \<Rightarrow> string" where
  "captured_stdout out = (case out of CompletedProcess rc so se \<Rightarrow> so | Raised x \<Rightarrow> [])"

text \<open>The commands of the script, as the shell receives them.\<close>

definition which_cmd :: string where
  "which_cmd = ''which git-filter-repo''"

definition backup_branch :: string where
  "backup_branch = ''backup-before-cleanup''"

definition backup_cmd :: string where
  "backup_cmd = ''git branch '' @ backup_branch"

definition filter_cmd :: string where
  "filter_cmd = ''git-filter-repo --path backend/.env --invert-paths --force''"

definition push_cmd :: string where
  "push_cmd = ''git push origin main --force''"

text \<open>The lines of the script, as \<open>print\<close> receives them.\<close>

definition msg_not_a_repository :: string where
  "msg_not_a_repository = ''Error: Not in a git repository''"

definition msg_tool_missing :: string where
  "msg_tool_missing = ''Error: git-filter-repo not found. Please install it first.''"

definition msg_install_hint :: string where
  "msg_install_hint = ''You can install it with: pip3 install git-filter-repo''"

definition msg_cleaning :: string where
  "msg_cleaning = ''Cleaning git history to remove secrets...''"

definition msg_backup_created :: string where
  "msg_backup_created = check_mark @ '' Created backup branch: backup-before-cleanup''"

definition msg_backup_warning :: string where
  "msg_backup_warning = warning_sign @ '' Warning: Could not create backup branch''"

definition msg_running_filter :: string where
  "msg_running_filter = ''Running git-filter-repo to remove .env files from history...''"

definition msg_filter_ok :: string where
  "msg_filter_ok = check_mark @ '' Successfully cleaned git history''"

definition msg_filter_failed :: string where
  "msg_filter_failed = ballot_x @ '' Failed to clean git history:''"

definition msg_pushing :: string where
  "msg_pushing = ''Force pushing to remote...''"

definition msg_push_ok :: string where
  "msg_push_ok = check_mark @ '' Successfully pushed cleaned history to remote''"

definition msg_push_failed :: string where
  "msg_push_failed = ballot_x @ '' Failed to push to remote:''"

definition msg_celebration :: string where
  "msg_celebration = CHR 0x0A # party_popper @ '' Git history cleaned successfully!''"

definition msg_restore :: string where
  "msg_restore = ''If you need to restore, use: git checkout backup-before-cleanup''"

definition msg_final_failure :: string where
  "msg_final_failure = CHR 0x0A # cross_mark @ '' Failed to clean git history''"

fun runs :: "event list \<Rightarrow> (string \<times> proc_outcome) list" where
  "runs [] = []"
| "runs (Print s # t) = runs t"
| "runs (Run cmd out # t) = (cmd, out) # runs t"

definition ran :: "event list \<Rightarrow> string \<Rightarrow> bool" where
  "ran t cmd = (cmd \<in> set (launched t))"

definition ran_ok :: "event list \<Rightarrow> string \<Rightarrow> bool" where
  "ran_ok t cmd = (\<exists>r \<in> set (runs t). fst r = cmd \<and> succeeded (snd r))"

definition ran_failed :: "event list \<Rightarrow> string \<Rightarrow> bool" where
  "ran_failed t cmd = (\<exists>r \<in> set (runs t). fst r = cmd \<and> failed (snd r))"

text \<open>The trace \<open>t\<close> ends with the events \<open>xs\<close>.\<close>

definition ends_with :: "event list \<Rightarrow> event list \<Rightarrow> bool" where
  "ends_with t xs = (length xs \<le> length t \<and> drop (length t - length xs) t = xs)"

text \<open>The run stopped at the repository check of lines 58 to 60.\<close>

definition not_a_repository_abort :: "process_end \<times> event list \<Rightarrow> bool" where
  "not_a_repository_abort r = (r = (Exit 1, [Print msg_not_a_repository]))"


section \<open>Environments used as concrete inputs\<close>

text \<open>A repository where every command succeeds.\<close>

definition env_all_ok :: env where
  "env_all_ok =
     \<lparr>path_exists = (\<lambda>p. p = ''.git''),
      subprocess_run = (\<lambda>h cmd. CompletedProcess 0 [] [])\<rparr>"

text \<open>A second run of the script: the backup branch is there already, so
  \<open>git branch\<close> fails; the other commands succeed.\<close>

definition env_branch_exists :: env where
  "env_branch_exists =
     \<lparr>path_exists = (\<lambda>p. p = ''.git''),
      subprocess_run = (\<lambda>h cmd. if cmd = backup_cmd
                                 then CompletedProcess 128 [] ''fatal: branch already exists''
                                 else CompletedProcess 0 [] [])\<rparr>"

text \<open>The rewrite fails.\<close>

definition env_filter_fails :: env where
  "env_filter_fails =
     \<lparr>path_exists = (\<lambda>p. p = ''.git''),
      subprocess_run = (\<lambda>h cmd. if cmd = filter_cmd
                                 then CompletedProcess 1 [] ''fatal: history rewrite failed''
                                 else CompletedProcess 0 [] [])\<rparr>"


text \<open>\<open>git-filter-repo\<close> is not installed: \<open>which\<close> ends with status 1.\<close>

definition env_tool_missing :: env where
  "env_tool_missing =
     \<lparr>path_exists = (\<lambda>p. p = ''.git''),
      subprocess_run = (\<lambda>h cmd. if cmd = which_cmd
                                 then CompletedProcess 1 [] []
                                 else CompletedProcess 0 [] [])\<rparr>"

text \<open>A directory with a plain file named \<open>.git\<close>: \<open>which\<close> finds the tool, every
  git command fails.\<close>

definition env_plain_file :: env where
  "env_plain_file =
     \<lparr>path_exists = (\<lambda>p. p = ''.git''),
      subprocess_run = (\<lambda>h cmd. if cmd = which_cmd
                                 then CompletedProcess 0 ''/usr/bin/git-filter-repo'' []
                                 else CompletedProcess 128 [] ''fatal: not a git repository'')\<rparr>"

text \<open>A subdirectory of a repository: no \<open>.git\<close> here, though every command would
  succeed.\<close>

definition env_subdirectory :: env where
  "env_subdirectory =
     \<lparr>path_exists = (\<lambda>p. False),
      subprocess_run = (\<lambda>h cmd. CompletedProcess 0 [] [])\<rparr>"

text \<open>Ctrl-C while the push is running; everything else goes well.\<close>

definition env_interrupted :: env where
  "env_interrupted =
     \<lparr>path_exists = (\<lambda>p. p = ''.git''),
      subprocess_run = (\<lambda>h cmd. if cmd = push_cmd
                                 then Raised KeyboardInterrupt
                                 else CompletedProcess 0 [] [])\<rparr>"

text \<open>A command with a NUL byte: \<open>subprocess.run\<close> raises \<open>ValueError\<close>.\<close>

definition env_null_byte :: env where
  "env_null_byte =
     \<lparr>path_exists = (\<lambda>p. p = ''.git''),
      subprocess_run = (\<lambda>h cmd. if CHR 0x00 \<in> set cmd
                                 then Raised (Exception_subclass ''embedded null byte'')
                                 else CompletedProcess 0 [] [])\<rparr>"

section \<open>The script in one piece\<close>

lemma launched_append [simp]: "launched (a @ b) = launched a @ launched b"
  by (induction a rule: launched.induct) simp_all

lemma runs_append [simp]: "runs (a @ b) = runs a @ runs b"
  by (induction a rule: runs.induct) simp_all

lemma succeeded_simps [simp]:
  "succeeded (CompletedProcess rc so se) = (rc = 0)"
  "succeeded (Raised x) = False"
  by (simp_all add: succeeded_def)

lemma failed_iff: "failed out \<longleftrightarrow> \<not> succeeded out \<and> out \<noteq> Raised KeyboardInterrupt"
  by (simp add: failed_def succeeded_def split: proc_outcome.split py_exception.split)

lemma diagnostic_simps [simp]:
  "diagnostic (CompletedProcess rc so se) = se"
  "diagnostic (Raised (Exception_subclass msg)) = msg"
  by (simp_all add: diagnostic_def)

lemma cmd_neq [simp]:
  "which_cmd \<noteq> backup_cmd" "which_cmd \<noteq> filter_cmd" "which_cmd \<noteq> push_cmd"
  "backup_cmd \<noteq> which_cmd" "backup_cmd \<noteq> filter_cmd" "backup_cmd \<noteq> push_cmd"
  "filter_cmd \<noteq> which_cmd" "filter_cmd \<noteq> backup_cmd" "filter_cmd \<noteq> push_cmd"
  "push_cmd \<noteq> which_cmd" "push_cmd \<noteq> backup_cmd" "push_cmd \<noteq> filter_cmd"
  by (simp_all add: which_cmd_def backup_cmd_def backup_branch_def filter_cmd_def push_cmd_def)

text \<open>\<open>run_command\<close> always records the call; it returns unless the outcome is
  \<open>KeyboardInterrupt\<close>.\<close>

lemma run_command_eq:
  "run_command e cmd t =
     (if subprocess_run e (launched t) cmd = Raised KeyboardInterrupt
      then Inl KeyboardInterrupt
      else Inr (succeeded (subprocess_run e (launched t) cmd),
                captured_stdout (subprocess_run e (launched t) cmd),
                diagnostic (subprocess_run e (launched t) cmd)),
      t @ [Run cmd (subprocess_run e (launched t) cmd)])"
  by (simp add: run_command_def Let_def succeeded_def diagnostic_def captured_stdout_def
           split: proc_outcome.split py_exception.split)

text \<open>The literals of the script are the named commands and lines.\<close>

lemma filter_cmd_join:
  "join '' '' [''git-filter-repo'', ''--path backend/.env'', ''--invert-paths'', ''--force'']
     = filter_cmd"
  by (simp add: filter_cmd_def)

lemma backup_cmd_literal: "''git branch backup-before-cleanup'' = backup_cmd"
  by (simp add: backup_cmd_def backup_branch_def)


lemmas fold_literals =
  filter_cmd_join backup_cmd_literal push_cmd_def [symmetric] which_cmd_def [symmetric]
  msg_not_a_repository_def [symmetric] msg_tool_missing_def [symmetric]
  msg_install_hint_def [symmetric] msg_cleaning_def [symmetric]
  msg_backup_created_def [symmetric] msg_backup_warning_def [symmetric]
  msg_running_filter_def [symmetric] msg_filter_ok_def [symmetric]
  msg_filter_failed_def [symmetric] msg_pushing_def [symmetric]
  msg_push_ok_def [symmetric] msg_push_failed_def [symmetric]
  msg_celebration_def [symmetric] msg_restore_def [symmetric]
  msg_final_failure_def [symmetric]

text \<open>
  \<open>clean_git_history\<close> and \<open>main\<close> with the calls of \<open>run_command\<close> replaced by their
  outcomes: \<open>ob\<close>, \<open>ofl\<close> and \<open>op\<close> are the outcomes of the backup, the rewrite and the
  push, \<open>ow\<close> that of the probe.
\<close>

lemma clean_git_history_eq:
  "clean_git_history e t0 =
     (let h = launched t0;
          ob = subprocess_run e h backup_cmd;
          t2 = t0 @ [Print msg_cleaning, Run backup_cmd ob];
          ofl = subprocess_run e (h @ [backup_cmd]) filter_cmd;
          t5 = t2 @ [Print (if succeeded ob then msg_backup_created else msg_backup_warning),
                     Print msg_running_filter, Run filter_cmd ofl];
          op = subprocess_run e (h @ [backup_cmd, filter_cmd]) push_cmd;
          t7 = t5 @ [Print msg_filter_ok, Print msg_pushing, Run push_cmd op]
      in if ob = Raised KeyboardInterrupt then (Inl KeyboardInterrupt, t2)
         else if ofl = Raised KeyboardInterrupt then (Inl KeyboardInterrupt, t5)
         else if \<not> succeeded ofl
           then (Inr False, t5 @ [Print msg_filter_failed, Print (diagnostic ofl)])
         else if op = Raised KeyboardInterrupt then (Inl KeyboardInterrupt, t7)
         else if succeeded op then (Inr True, t7 @ [Print msg_push_ok])
         else (Inr False, t7 @ [Print msg_push_failed, Print (diagnostic op)]))"
  unfolding clean_git_history_def Let_def
  unfolding fold_literals
  unfolding run_command_eq
  by simp

lemma main_eq:
  "main e =
     (let ow = subprocess_run e [] which_cmd;
          t1 = [Run which_cmd ow]
      in if \<not> path_exists e ''.git'' then (Exit 1, [Print msg_not_a_repository])
         else if ow = Raised KeyboardInterrupt then (Uncaught KeyboardInterrupt, t1)
         else if \<not> succeeded ow
           then (Exit 1, t1 @ [Print msg_tool_missing, Print msg_install_hint])
         else (case clean_git_history e t1 of
                 (Inl x, t2) \<Rightarrow> (Uncaught x, t2)
               | (Inr ok, t2) \<Rightarrow>
                   if ok then (Exit 0, t2 @ [Print msg_celebration, Print msg_restore])
                   else (Exit 1, t2 @ [Print msg_final_failure])))"
  unfolding main_def Let_def
  unfolding fold_literals
  unfolding run_command_eq
  by simp

lemmas script_eq = main_eq clean_git_history_eq Let_def

lemmas trace_defs = ran_def ran_ok_def ran_failed_def failed_iff ends_with_def

lemma repository_check_iff:
  "not_a_repository_abort (main e) \<longleftrightarrow> \<not> path_exists e ''.git''"
  by (simp add: script_eq not_a_repository_abort_def)

section \<open>The command runner\<close>

text \<open>
  C8, as the code has it. Whenever \<open>subprocess.run\<close> completes or raises an instance of
  \<open>Exception\<close>, \<open>run_command\<close> returns a triple: for a completed process the flag is
  \<open>returncode = 0\<close> with the two captured streams, for an exception it is
  \<open>(False, "", str(e))\<close>. So the flag is true exactly when the command completed with
  exit status zero. Only an exception outside \<open>Exception\<close> (\<open>KeyboardInterrupt\<close>) is not
  converted.
\<close>

theorem run_command_converts_every_Exception:
  assumes "subprocess_run e (launched t) cmd \<noteq> Raised KeyboardInterrupt"
  shows "\<exists>flag out err.
           fst (run_command e cmd t) = Inr (flag, out, err) \<and>
           (flag \<longleftrightarrow> (\<exists>so se. subprocess_run e (launched t) cmd = CompletedProcess 0 so se)) \<and>
           (\<forall>rc so se. subprocess_run e (launched t) cmd = CompletedProcess rc so se
                \<longrightarrow> (flag, out, err) = (rc = 0, so, se)) \<and>
           (\<forall>msg. subprocess_run e (launched t) cmd = Raised (Exception_subclass msg)
                \<longrightarrow> (flag, out, err) = (False, [], msg))"
proof (cases "subprocess_run e (launched t) cmd")
  case (CompletedProcess rc so se)
  then show ?thesis by (simp add: run_command_def)
next
  case (Raised x)
  with assms obtain msg where "x = Exception_subclass msg" by (cases x) auto
  with Raised show ?thesis by (auto simp add: run_command_def)
qed

text \<open>C8 at two inputs: a command that \<open>subprocess.run\<close> refuses with \<open>ValueError\<close>,
  and a command that completes with status 0.\<close>

theorem run_command_converts_every_Exception_witness:
  "subprocess_run env_null_byte (launched []) [CHR ''a'', CHR 0x00] \<noteq> Raised KeyboardInterrupt \<and>
   fst (run_command env_null_byte [CHR ''a'', CHR 0x00] []) = Inr (False, [], ''embedded null byte'') \<and>
   fst (run_command env_all_ok which_cmd []) = Inr (True, [], [])"
  using run_command_converts_every_Exception [of env_null_byte "[]" "[CHR ''a'', CHR 0x00]"]
    run_command_converts_every_Exception [of env_all_ok "[]" which_cmd]
  by (auto simp add: env_null_byte_def env_all_ok_def)

text \<open>
  C8, as the claim states it, fails: when the user interrupts the push,
  \<open>subprocess.run\<close> raises \<open>KeyboardInterrupt\<close>, which \<open>except Exception\<close> lets through
  to the caller.
\<close>

theorem run_command_raises_KeyboardInterrupt:
  "fst (run_command env_interrupted push_cmd []) = Inl KeyboardInterrupt"
  by (simp add: run_command_def env_interrupted_def)

section \<open>The precondition checks\<close>



text \<open>
  C4. In a run in which the probe \<open>which git-filter-repo\<close> reports failure, the process
  prints the two lines of the installation hint and exits with status 1; the probe is the
  only command of the run.
\<close>

theorem missing_tool_exits_1:
  "ran_failed (snd (main e)) which_cmd \<Longrightarrow>
     main e = (Exit 1, [Run which_cmd (subprocess_run e [] which_cmd),
                        Print msg_tool_missing, Print msg_install_hint]) \<and>
     launched (snd (main e)) = [which_cmd]"
  by (simp add: script_eq trace_defs split: if_splits)

theorem missing_tool_exits_1_witness:
  "ran_failed (snd (main env_tool_missing)) which_cmd \<and>
   main env_tool_missing =
     (Exit 1, [Run which_cmd (CompletedProcess 1 [] []),
               Print msg_tool_missing, Print msg_install_hint]) \<and>
   launched (snd (main env_tool_missing)) = [which_cmd]"
  using missing_tool_exits_1 [of env_tool_missing]
  by (simp add: script_eq trace_defs env_tool_missing_def)

text \<open>
  C9. The run stops at the repository check exactly when \<open>os.path.exists(".git")\<close> is
  false, whatever the rest of the environment is: two environments that agree on that
  one answer agree on the check. When the answer is true the script goes on to the
  probe, also where \<open>.git\<close> is no repository; when it is false the script stops, also
  where the git commands would have worked.
\<close>

theorem repository_check_is_path_exists:
  "(not_a_repository_abort (main e) \<longleftrightarrow> \<not> path_exists e ''.git'') \<and>
   (path_exists e ''.git'' \<longrightarrow>
      take 1 (snd (main e)) = [Run which_cmd (subprocess_run e [] which_cmd)]) \<and>
   (\<forall>e'. path_exists e' ''.git'' = path_exists e ''.git'' \<longrightarrow>
      not_a_repository_abort (main e') = not_a_repository_abort (main e))"
  by (simp add: repository_check_iff) (simp add: script_eq)

text \<open>C9 at a directory with a plain file \<open>.git\<close> (the check passes, then git itself
  fails) and at a subdirectory of a repository (the check fails).\<close>

theorem repository_check_is_path_exists_witness:
  "path_exists env_plain_file ''.git'' \<and>
   \<not> not_a_repository_abort (main env_plain_file) \<and>
   take 1 (snd (main env_plain_file)) =
     [Run which_cmd (CompletedProcess 0 ''/usr/bin/git-filter-repo'' [])] \<and>
   ran_failed (snd (main env_plain_file)) backup_cmd \<and>
   \<not> path_exists env_subdirectory ''.git'' \<and>
   not_a_repository_abort (main env_subdirectory)"
  using repository_check_is_path_exists [of env_plain_file]
    repository_check_is_path_exists [of env_subdirectory]
  by (simp add: env_plain_file_def env_subdirectory_def script_eq trace_defs)

section \<open>The cleanup\<close>

text \<open>
  C1, as the code has it. In every run that ends with exit status 0 the commands run
  are, in this order, the probe, the branch creation for \<open>backup-before-cleanup\<close>, the
  rewrite and the push: the branch creation is attempted before the rewrite. Whether it
  succeeded is not part of the statement.
\<close>

theorem exit_0_runs_backup_before_rewrite:
  "fst (main e) = Exit 0 \<Longrightarrow>
     launched (snd (main e)) = [which_cmd, backup_cmd, filter_cmd, push_cmd]"
  by (simp add: script_eq split: if_splits)

theorem exit_0_runs_backup_before_rewrite_witness:
  "fst (main env_all_ok) = Exit 0 \<and>
   launched (snd (main env_all_ok)) = [which_cmd, backup_cmd, filter_cmd, push_cmd]"
  using exit_0_runs_backup_before_rewrite [of env_all_ok]
  by (simp add: script_eq env_all_ok_def)

text \<open>
  C1, as the claim states it, fails: where the backup branch exists already,
  \<open>git branch\<close> ends with status 128, the script prints its warning, rewrites, pushes
  and exits with status 0. This is the whole run.
\<close>

theorem exit_0_with_failed_backup:
  "main env_branch_exists =
     (Exit 0,
      [Run which_cmd (CompletedProcess 0 [] []),
       Print msg_cleaning,
       Run backup_cmd (CompletedProcess 128 [] ''fatal: branch already exists''),
       Print msg_backup_warning,
       Print msg_running_filter,
       Run filter_cmd (CompletedProcess 0 [] []),
       Print msg_filter_ok,
       Print msg_pushing,
       Run push_cmd (CompletedProcess 0 [] []),
       Print msg_push_ok,
       Print msg_celebration,
       Print msg_restore])"
  by (simp add: script_eq env_branch_exists_def)

text \<open>
  C2. In a run in which the rewrite reports failure, the push command is not run.
\<close>

theorem failed_rewrite_never_pushes:
  "ran_failed (snd (main e)) filter_cmd \<Longrightarrow> \<not> ran (snd (main e)) push_cmd"
  by (simp add: script_eq trace_defs split: if_splits)

theorem failed_rewrite_never_pushes_witness:
  "ran_failed (snd (main env_filter_fails)) filter_cmd \<and>
   \<not> ran (snd (main env_filter_fails)) push_cmd"
  using failed_rewrite_never_pushes [of env_filter_fails]
  by (simp add: script_eq trace_defs env_filter_fails_def)









end
